theory Spec2Isabelle
  imports Main
begin

section \<open>Strings of the host language\<close>

text \<open>
  The terminal component (\<^verbatim>\<open>TerminalPortfolio\<close>, lines 308--908 of
  \<^verbatim>\<open>src/frontend/src/components/Contact.tsx\<close>) works on JavaScript strings.
  A \<^typ>\<open>char\<close> stands here for the UTF-16 code unit with the same number, so the
  embedding covers every line whose code units are below 256. On that range
  \<^verbatim>\<open>toLowerCase\<close> adds 32 to the letters A--Z and to U+00C0--U+00DE (U+00D7, the
  multiplication sign, apart), and \<^verbatim>\<open>trim\<close> strips tab, line feed, vertical tab,
  form feed, carriage return, space and the no-break space U+00A0.
\<close>

definition lowerChar :: "char \<Rightarrow> char" where
  "lowerChar c =
     (let n = (of_char c :: nat)
      in if (65 \<le> n \<and> n \<le> 90) \<or> (192 \<le> n \<and> n \<le> 222 \<and> n \<noteq> 215)
         then char_of (n + 32) else c)"

definition toLowerCase :: "string \<Rightarrow> string" where
  "toLowerCase s = map lowerChar s"

definition isWhiteSpace :: "char \<Rightarrow> bool" where
  "isWhiteSpace c =
     (let n = (of_char c :: nat)
      in (9 \<le> n \<and> n \<le> 13) \<or> n = 32 \<or> n = 160)"

definition trim :: "string \<Rightarrow> string" where
  "trim s = rev (dropWhile isWhiteSpace (rev (dropWhile isWhiteSpace s)))"

text \<open>
  \<^verbatim>\<open>s.split(" ")\<close>: the pieces between single spaces. The result is never empty;
  two spaces in a row give an empty piece.
\<close>

fun split :: "char \<Rightarrow> string \<Rightarrow> string list" where
  "split sep [] = [[]]"
| "split sep (c # cs) =
     (if c = sep then [] # split sep cs
      else (case split sep cs of
              [] \<Rightarrow> [[c]]
            | w # ws \<Rightarrow> (c # w) # ws))"

text \<open>\<^verbatim>\<open>xs.join(sep)\<close>.\<close>

fun join :: "string \<Rightarrow> string list \<Rightarrow> string" where
  "join sep [] = []"
| "join sep [x] = x"
| "join sep (x # y # ys) = x @ sep @ join sep (y # ys)"

text \<open>
  \<^verbatim>\<open>xs[i]\<close> for reading: \<^verbatim>\<open>undefined\<close> (here \<^const>\<open>None\<close>) outside the array.
\<close>

definition at :: "'a list \<Rightarrow> int \<Rightarrow> 'a option" where
  "at xs i = (if 0 \<le> i \<and> i < int (length xs) then Some (xs ! nat i) else None)"

section \<open>Rendered output\<close>

text \<open>
  A command's output is a React node. \<open>El tag className children\<close> is an element and
  \<open>Txt\<close> a run of text. \<open>Glyph\<close> is one character outside the range of \<^typ>\<open>char\<close>,
  by its code point. \<open>DateString t\<close> is \<^verbatim>\<open>new Date().toString()\<close> read at time
  \<open>t\<close>. \<open>Markup name\<close> is one of the fixed JSX literals of the source that no
  property below looks into, named by the \<^verbatim>\<open>case\<close> label it belongs to.
\<close>

datatype node =
    Txt string
  | Glyph nat
  | DateString nat
  | Markup string
  | El string string "node list"

text \<open>
  The text of a node, when the node is made of elements and plain text only.
\<close>

fun plainText :: "node \<Rightarrow> string option" where
  "plainText (Txt s) = Some s"
| "plainText (El tag cls kids) = map_option concat (those (map plainText kids))"
| "plainText (Glyph n) = None"
| "plainText (DateString t) = None"
| "plainText (Markup name) = None"

text \<open>The elements of a given class, in document order.\<close>

fun byClass :: "string \<Rightarrow> node \<Rightarrow> node list" where
  "byClass c (El tag cls kids) =
     (if cls = c then [El tag cls kids] else []) @ concat (map (byClass c) kids)"
| "byClass c (Txt s) = []"
| "byClass c (Glyph n) = []"
| "byClass c (DateString t) = []"
| "byClass c (Markup name) = []"

section \<open>Data model\<close>

text \<open>The \<^verbatim>\<open>Project\<close> interface of \<^verbatim>\<open>src/frontend/src/lib/api.ts\<close>.\<close>

record project_links =
  github :: "string option"
  live :: "string option"
  demo :: "string option"

record project =
  id' :: string
  title :: string
  description :: string
  short_description :: "string option"
  technologies :: "string list"
  images :: "string list"
  thumbnail :: "string option"
  links :: "project_links option"
  category :: string
  featured :: bool
  date_created :: string
  date_updated :: string

text \<open>The \<^verbatim>\<open>Command\<close> interface: one entry of the session log.\<close>

record command =
  input :: string
  output' :: node
  timestamp :: nat

text \<open>A callback handed to \<^verbatim>\<open>setTimeout\<close>; the source has one, \<^verbatim>\<open>() => setTheme('default')\<close>.\<close>

datatype callback = CallSetTheme string

text \<open>
  The state the component reads and writes. The first five fields are its
  \<^verbatim>\<open>useState\<close> cells; \<open>currentInput = None\<close> is a buffer holding \<^verbatim>\<open>undefined\<close>.
  \<open>currentTheme\<close> is the cell of \<^verbatim>\<open>ThemeProvider\<close>, \<open>themeCalls\<close> lists the
  arguments of the calls of \<^verbatim>\<open>setTheme\<close> so far, oldest first, and \<open>timers\<close> the
  pending \<^verbatim>\<open>setTimeout\<close> requests (delay in milliseconds, callback), oldest first.
\<close>

record terminal =
  commands :: "command list"
  currentInput :: "string option"
  commandHistory :: "string list"
  historyIndex :: int
  projects :: "project list"
  currentTheme :: string
  themeCalls :: "string list"
  timers :: "(nat \<times> callback) list"

section \<open>Fixed content\<close>

text \<open>\<^verbatim>\<open>availableCommands\<close> (lines 331--349): command name and description, in order.\<close>

definition availableCommands :: "(string \<times> string) list" where
  "availableCommands =
     [(''help'', ''Show available commands''),
      (''about'', ''Display information about me''),
      (''skills'', ''List technical skills''),
      (''projects'', ''Show my projects''),
      (''contact'', ''Display contact information''),
      (''experience'', ''Show work experience''),
      (''education'', ''Display educational background''),
      (''clear'', ''Clear the terminal''),
      (''whoami'', ''Display brief introduction''),
      (''ls'', ''List available sections''),
      (''cat'', ''Display file contents (usage: cat <filename>)''),
      (''neofetch'', ''Display system information''),
      (''tree'', ''Show portfolio structure''),
      (''pwd'', ''Print working directory''),
      (''date'', ''Show current date and time''),
      (''theme'', ''Switch themes (usage: theme <default|angler|magic|cmd>)''),
      (''exit'', ''Return to normal portfolio view'')]"

text \<open>The \<^verbatim>\<open>themes\<close> array of the \<^verbatim>\<open>theme\<close> case (line 719).\<close>

definition themes :: "string list" where
  "themes = [''default'', ''angler'', ''magic'', ''cmd'']"

definition helpOutput :: node where
  "helpOutput =
     El ''div'' ''space-y-1''
       (El ''div'' ''text-green-400 font-bold mb-2'' [Txt ''Available Commands:'']
        # map (\<lambda>(command, description).
                 El ''div'' ''flex''
                   [El ''span'' ''text-cyan-400 w-16'' [Txt command],
                    El ''span'' ''text-gray-300'' [Txt ''- '', Txt description]])
              availableCommands)"

text \<open>One project of the \<^verbatim>\<open>projects\<close> case (lines 510--529).\<close>

definition projectCard :: "project \<Rightarrow> node" where
  "projectCard p =
     El ''div'' ''border-l-2 border-cyan-400 pl-3''
       ([El ''div'' ''text-cyan-400 font-semibold'' [Txt (title p)],
         El ''div'' [] [Txt (description p)],
         El ''div'' ''text-sm text-gray-400''
           [Txt ''Tech: '', Txt (join '', '' (technologies p))],
         El ''div'' ''text-sm text-gray-400'' [Txt ''Category: '', Txt (category p)]]
        @ (case links p of
             None \<Rightarrow> []
           | Some l \<Rightarrow>
               (case github l of
                  None \<Rightarrow> []
                | Some g \<Rightarrow>
                    if g = [] then []
                    else [El ''div'' ''text-sm text-blue-400'' [Txt ''Repository: '', Txt g]]))
        @ (case links p of
             None \<Rightarrow> []
           | Some l \<Rightarrow>
               (case demo l of
                  None \<Rightarrow> []
                | Some d \<Rightarrow>
                    if d = [] then []
                    else [El ''div'' ''text-sm text-purple-400'' [Txt ''Demo: '', Txt d]])))"

definition loadingPlaceholder :: node where
  "loadingPlaceholder = El ''div'' ''text-gray-400'' [Txt ''Loading projects from database...'']"

definition projectsOutput :: "project list \<Rightarrow> node" where
  "projectsOutput ps =
     El ''div'' ''space-y-3''
       [El ''div'' ''text-green-400 font-bold'' [Txt ''Featured Projects''],
        El ''div'' ''space-y-2 text-gray-300''
          (if length ps > 0 then map projectCard ps else [loadingPlaceholder])]"

text \<open>The two branches of the \<^verbatim>\<open>cat\<close> case (lines 632--647).\<close>

definition readmeHeading :: node where
  "readmeHeading = El ''div'' ''text-green-400 font-bold'' [Txt ''# Site-Portifolio'']"

definition readmeOutput :: node where
  "readmeOutput =
     El ''div'' ''text-gray-300 space-y-2''
       [readmeHeading,
        El ''div'' []
          [Glyph 0x1F3AF, Txt '' '',
           El ''span'' ''text-cyan-400'' [Txt ''Modern Full Stack Portfolio System'']],
        El ''div'' []
          [Glyph 0x1F680, Txt '' Multi-theme portfolio with interactive terminal interface''],
        El ''div'' []
          [Glyph 0x26A1, Txt '' Built with React 19.1.0, TypeScript, FastAPI, and PostgreSQL''],
        El ''div'' []
          [Glyph 0x1F4F1, Txt '' Responsive design with mobile-optimized terminal''],
        El ''div'' []
          [Glyph 0x1F527,
           Txt '' Features: Project showcase, contact forms, admin panel, file uploads''],
        El ''div'' []
          [Glyph 0x1F3A8, Txt '' Themes: Default, Angler, Magic, and CMD terminal mode''],
        El ''div'' ''mt-2 text-yellow-400'' [Txt ''Use 'help' to explore available commands'']]"

definition noSuchFile :: "string \<Rightarrow> node" where
  "noSuchFile name =
     El ''div'' ''text-red-400'' [Txt ''cat: '', Txt name, Txt '': No such file or directory'']"

text \<open>The three branches of the \<^verbatim>\<open>theme\<close> case (lines 718--735).\<close>

definition themeSwitched :: "string \<Rightarrow> node" where
  "themeSwitched name =
     El ''div'' ''text-green-400''
       [Glyph 0x2713, Txt '' Theme switched to: '', Txt name,
        El ''div'' ''text-gray-300 mt-1''
          [Txt (if name = ''cmd'' then ''Already in terminal mode!''
                else ''Switching to normal view...'')]]"

definition unknownTheme :: "string \<Rightarrow> node" where
  "unknownTheme name = El ''div'' ''text-red-400'' [Txt ''Unknown theme: '', Txt name]"

definition currentThemeOutput :: node where
  "currentThemeOutput = El ''div'' ''text-gray-300'' [Txt ''Current theme: cmd'']"

definition exitOutput :: node where
  "exitOutput =
     El ''div'' ''text-yellow-400''
       [Txt ''Exiting terminal mode...'',
        El ''div'' ''text-gray-300 mt-1'' [Txt ''Switching to default portfolio view'']]"

text \<open>The \<^verbatim>\<open>default\<close> case (line 756).\<close>

definition notFound :: "string \<Rightarrow> node" where
  "notFound cmd =
     El ''div'' ''text-red-400''
       [Txt (''Command '' @ [CHR 0x27]), Txt cmd,
        Txt (CHR 0x27 # '' not found. Type 'help' for available commands.'')]"

text \<open>
  The data the \<^verbatim>\<open>catch\<close> branch of \<^verbatim>\<open>fetchProjects\<close> stores (lines 389--421);
  \<open>stamp\<close> is \<^verbatim>\<open>new Date().toISOString()\<close> at that moment.
\<close>

definition mockProjects :: "string \<Rightarrow> project list" where
  "mockProjects stamp =
     [\<lparr>id' = ''1'', title = ''Portfolio Terminal'',
       description = ''Interactive terminal-style portfolio interface'',
       short_description = Some ''CMD-style portfolio interface'',
       technologies = [''React'', ''TypeScript'', ''Framer Motion'', ''Tailwind CSS''],
       images = [], thumbnail = None,
       links = Some \<lparr>github = Some ''https://github.com/user/portfolio'', live = None,
                      demo = Some ''https://portfolio.dev''\<rparr>,
       category = ''Web Development'', featured = True,
       date_created = stamp, date_updated = stamp\<rparr>,
      \<lparr>id' = ''2'', title = ''Full Stack Dashboard'',
       description = ''Modern dashboard with real-time data visualization'',
       short_description = Some ''Real-time dashboard'',
       technologies = [''React'', ''FastAPI'', ''PostgreSQL'', ''Chart.js''],
       images = [], thumbnail = None,
       links = Some \<lparr>github = Some ''https://github.com/user/dashboard'', live = None,
                      demo = None\<rparr>,
       category = ''Full Stack'', featured = True,
       date_created = stamp, date_updated = stamp\<rparr>]"

section \<open>The theme context\<close>

text \<open>
  \<^verbatim>\<open>setTheme\<close> of \<^verbatim>\<open>ThemeProvider\<close> (ThemeContext.tsx, lines 27--31) stores its
  argument; the call is recorded in \<open>themeCalls\<close>. \<^verbatim>\<open>AppContent\<close> (App.tsx, lines
  13--17) renders the terminal exactly while the current theme is \<^verbatim>\<open>cmd\<close>.
\<close>

definition setTheme :: "string \<Rightarrow> terminal \<Rightarrow> terminal" where
  "setTheme theme s = s\<lparr>currentTheme := theme, themeCalls := themeCalls s @ [theme]\<rparr>"

definition terminalRendered :: "terminal \<Rightarrow> bool" where
  "terminalRendered s = (currentTheme s = ''cmd'')"

text \<open>
  \<^verbatim>\<open>setTimeout(cb, ms)\<close> queues the callback; the source drops the handle it returns,
  never calls \<^verbatim>\<open>clearTimeout\<close>, and none of the component's effects (lines 381, 799
  and 805) returns a cleanup, so no code of the component runs when it is taken off
  the page. \<open>fireTimer\<close> is the runtime running the oldest pending callback when its
  delay is over.
\<close>

definition setTimeout :: "callback \<Rightarrow> nat \<Rightarrow> terminal \<Rightarrow> terminal" where
  "setTimeout cb ms s = s\<lparr>timers := timers s @ [(ms, cb)]\<rparr>"

definition fireTimer :: "terminal \<Rightarrow> terminal" where
  "fireTimer s =
     (case timers s of
        [] \<Rightarrow> s
      | (ms, CallSetTheme theme) # rest \<Rightarrow> setTheme theme (s\<lparr>timers := rest\<rparr>))"

section \<open>The command interpreter\<close>

text \<open>
  Lines 759--767: the new log entry, the history entry and the reset of the recall
  cursor, for every command that leaves the \<^verbatim>\<open>switch\<close> by \<^verbatim>\<open>break\<close>.
\<close>

definition appendEntry :: "nat \<Rightarrow> string \<Rightarrow> node \<Rightarrow> terminal \<Rightarrow> terminal" where
  "appendEntry now line out s =
     s\<lparr>commands := commands s @ [\<lparr>input = line, output' = out, timestamp = now\<rparr>],
       commandHistory := commandHistory s @ [line],
       historyIndex := - 1\<rparr>"

text \<open>
  \<^verbatim>\<open>const [cmd, ...args] = input.toLowerCase().trim().split(" ")\<close> (line 428).
\<close>

definition tokens :: "string \<Rightarrow> string list" where
  "tokens line = split (CHR '' '') (trim (toLowerCase line))"

text \<open>
  \<^verbatim>\<open>args[0]\<close> where the source tests it for truthiness: neither \<^verbatim>\<open>undefined\<close> nor
  the empty string.
\<close>

definition firstArg :: "string list \<Rightarrow> string option" where
  "firstArg args = (case args of [] \<Rightarrow> None | a # rest \<Rightarrow> if a = [] then None else Some a)"

text \<open>
  \<^verbatim>\<open>executeCommand\<close> (lines 427--768), with the clock reading \<open>now\<close> as an argument.
  The branches are in the order of the \<^verbatim>\<open>switch\<close>. A destructured empty array would
  leave \<^verbatim>\<open>cmd\<close> undefined, which falls to \<^verbatim>\<open>default\<close> and renders as no text.
  The \<^verbatim>\<open>date\<close> case reads the clock a second time; both readings are \<open>now\<close> here.
\<close>

definition executeCommand :: "nat \<Rightarrow> string \<Rightarrow> terminal \<Rightarrow> terminal" where
  "executeCommand now line s =
     (case tokens line of
        [] \<Rightarrow> appendEntry now line (notFound []) s
      | cmd # args \<Rightarrow>
          if cmd = ''help'' then appendEntry now line helpOutput s
          else if cmd = ''about'' then appendEntry now line (Markup ''about'') s
          else if cmd = ''skills'' then appendEntry now line (Markup ''skills'') s
          else if cmd = ''projects'' then appendEntry now line (projectsOutput (projects s)) s
          else if cmd = ''contact'' then appendEntry now line (Markup ''contact'') s
          else if cmd = ''experience'' then appendEntry now line (Markup ''experience'') s
          else if cmd = ''education'' then appendEntry now line (Markup ''education'') s
          else if cmd = ''whoami'' then appendEntry now line (Markup ''whoami'') s
          else if cmd = ''ls'' then appendEntry now line (Markup ''ls'') s
          else if cmd = ''cat'' then
            (if (case args of [] \<Rightarrow> False | a # rest \<Rightarrow> a = ''readme.md'')
             then appendEntry now line readmeOutput s
             else appendEntry now line
                    (noSuchFile (case firstArg args of None \<Rightarrow> ''filename'' | Some a \<Rightarrow> a)) s)
          else if cmd = ''neofetch'' then appendEntry now line (Markup ''neofetch'') s
          else if cmd = ''tree'' then appendEntry now line (Markup ''tree'') s
          else if cmd = ''pwd'' then
            appendEntry now line
              (El ''div'' ''text-gray-300'' [Txt ''/home/visitor/Site-Portifolio'']) s
          else if cmd = ''date'' then
            appendEntry now line (El ''div'' ''text-gray-300'' [DateString now]) s
          else if cmd = ''theme'' then
            (case firstArg args of
               Some a \<Rightarrow>
                 if a \<in> set themes
                 then appendEntry now line (themeSwitched a) (setTheme a s)
                 else appendEntry now line (unknownTheme a) s
             | None \<Rightarrow> appendEntry now line currentThemeOutput s)
          else if cmd = ''exit'' then
            appendEntry now line exitOutput (setTimeout (CallSetTheme ''default'') 1000 s)
          else if cmd = ''clear'' then s\<lparr>commands := []\<rparr>
          else if cmd = [] then s
          else appendEntry now line (notFound cmd) s)"

section \<open>Events\<close>

datatype error = TypeError

text \<open>
  \<^verbatim>\<open>handleSubmit\<close> (lines 770--776). \<^verbatim>\<open>currentInput.trim()\<close> on \<^verbatim>\<open>undefined\<close>
  throws.
\<close>

definition handleSubmit :: "nat \<Rightarrow> terminal \<Rightarrow> error + terminal" where
  "handleSubmit now s =
     (case currentInput s of
        None \<Rightarrow> Inl TypeError
      | Some line \<Rightarrow>
          if trim line \<noteq> []
          then Inr ((executeCommand now line s)\<lparr>currentInput := Some []\<rparr>)
          else Inr s)"

text \<open>\<^verbatim>\<open>handleKeyDown\<close> (lines 778--797), on the name of the key.\<close>

definition handleKeyDown :: "string \<Rightarrow> terminal \<Rightarrow> terminal" where
  "handleKeyDown key s =
     (if key = ''ArrowUp'' then
        (if historyIndex s < int (length (commandHistory s)) - 1 then
           (let newIndex = historyIndex s + 1
            in s\<lparr>historyIndex := newIndex,
                 currentInput :=
                   at (commandHistory s) (int (length (commandHistory s)) - 1 - newIndex)\<rparr>)
         else s)
      else if key = ''ArrowDown'' then
        (if historyIndex s > 0 then
           (let newIndex = historyIndex s - 1
            in s\<lparr>historyIndex := newIndex,
                 currentInput :=
                   at (commandHistory s) (int (length (commandHistory s)) - 1 - newIndex)\<rparr>)
         else if historyIndex s = 0 then s\<lparr>historyIndex := - 1, currentInput := Some []\<rparr>
         else s)
      else s)"

text \<open>
  The effect at line 381: \<^verbatim>\<open>fetchProjects\<close> stores the data of the response, or on
  a rejected request the two built-in projects (\<open>Inl stamp\<close>, with the clock's
  ISO string at that moment).
\<close>

definition fetchProjects :: "string + project list \<Rightarrow> terminal \<Rightarrow> terminal" where
  "fetchProjects response s =
     (case response of
        Inr data \<Rightarrow> s\<lparr>projects := data\<rparr>
      | Inl stamp \<Rightarrow> s\<lparr>projects := mockProjects stamp\<rparr>)"

text \<open>
  The state after mounting at time \<open>now\<close>: the initial values of the cells (lines
  320--324), the welcome entry of the effect at line 805, and \<^verbatim>\<open>cmd\<close> as the theme
  under which the component is rendered.
\<close>

definition mounted :: "nat \<Rightarrow> terminal" where
  "mounted now =
     \<lparr>commands = [\<lparr>input = [], output' = Markup ''welcome'', timestamp = now\<rparr>],
      currentInput = Some [],
      commandHistory = [],
      historyIndex = - 1,
      projects = [],
      currentTheme = ''cmd'',
      themeCalls = [],
      timers = []\<rparr>"

text \<open>
  What can happen to a mounted terminal: typing (\<^verbatim>\<open>onChange\<close>, line 877), a key
  (\<^verbatim>\<open>onKeyDown\<close>), a submission (\<^verbatim>\<open>onSubmit\<close>), the answer to the request for the
  projects, and a pending timer running out.
\<close>

datatype event =
    Change string
  | KeyDown string
  | Submit nat
  | Fetched "string + project list"
  | TimerFires

fun step :: "event \<Rightarrow> terminal \<Rightarrow> error + terminal" where
  "step (Change v) s = Inr (s\<lparr>currentInput := Some v\<rparr>)"
| "step (KeyDown key) s = Inr (handleKeyDown key s)"
| "step (Submit now) s = handleSubmit now s"
| "step (Fetched response) s = Inr (fetchProjects response s)"
| "step TimerFires s = Inr (fireTimer s)"

fun run :: "event list \<Rightarrow> terminal \<Rightarrow> error + terminal" where
  "run [] s = Inr s"
| "run (e # es) s = (case step e s of Inl err \<Rightarrow> Inl err | Inr s' \<Rightarrow> run es s')"

section \<open>Notions the properties are stated with\<close>

text \<open>
  The command name of a line is the \<^verbatim>\<open>cmd\<close> that \<^verbatim>\<open>executeCommand\<close> dispatches
  on: the first piece of the lower-cased, trimmed line.
\<close>

definition commandName :: "string \<Rightarrow> string" where
  "commandName line = (case tokens line of [] \<Rightarrow> [] | cmd # args \<Rightarrow> cmd)"

text \<open>A word: a non-empty run of characters with no white space among them.\<close>

definition word :: "string \<Rightarrow> bool" where
  "word x = (x \<noteq> [] \<and> list_all (\<lambda>c. \<not> isWhiteSpace c) x)"

text \<open>The recall cursor is \<open>-1\<close> or an index into the input history.\<close>

definition cursorInRange :: "terminal \<Rightarrow> bool" where
  "cursorInRange s =
     (- 1 \<le> historyIndex s \<and> historyIndex s \<le> int (length (commandHistory s)) - 1)"

text \<open>Typing each line and submitting it, at the given clock readings.\<close>

fun submissions :: "(string \<times> nat) list \<Rightarrow> event list" where
  "submissions [] = []"
| "submissions ((line, now) # rest) = Change line # Submit now # submissions rest"

text \<open>The buffer after each of \<open>n\<close> presses of the up arrow in a row.\<close>

fun recalled :: "nat \<Rightarrow> terminal \<Rightarrow> string option list" where
  "recalled 0 s = []"
| "recalled (Suc n) s =
     currentInput (handleKeyDown ''ArrowUp'' s) # recalled n (handleKeyDown ''ArrowUp'' s)"

text \<open>
  What a rendered list of projects shows: the text of the title elements, and
  whether the loading placeholder is there.
\<close>

definition listedTitles :: "node \<Rightarrow> string option list" where
  "listedTitles out = map plainText (byClass ''text-cyan-400 font-semibold'' out)"

definition placeholderShown :: "node \<Rightarrow> bool" where
  "placeholderShown out = (byClass ''text-gray-400'' out = [loadingPlaceholder])"

section \<open>Facts about strings\<close>

lemma of_char_lowerChar:
  "(of_char (lowerChar c) :: nat) =
     (if (65 \<le> (of_char c :: nat) \<and> (of_char c :: nat) \<le> 90) \<or>
         (192 \<le> (of_char c :: nat) \<and> (of_char c :: nat) \<le> 222 \<and> (of_char c :: nat) \<noteq> 215)
      then of_char c + 32 else of_char c)"
  using nat_of_char_less_256 [of c] by (simp add: lowerChar_def Let_def)


lemma isWhiteSpace_lowerChar: "isWhiteSpace (lowerChar c) = isWhiteSpace c"
  by (simp add: isWhiteSpace_def Let_def of_char_lowerChar)

lemma isWhiteSpace_space: "isWhiteSpace (CHR '' '')"
  by (simp add: isWhiteSpace_def)


lemma split_not_Nil: "split sep s \<noteq> []"
  by (induction s) (auto split: list.splits)

lemma tokens_not_Nil: "tokens line \<noteq> []"
  by (simp add: tokens_def split_not_Nil)

lemma trim_eq_Nil: "trim s = [] \<longleftrightarrow> (\<forall>c\<in>set s. isWhiteSpace c)"
proof
  assume "trim s = []"
  then have "\<forall>x\<in>set (dropWhile isWhiteSpace s). isWhiteSpace x"
    by (simp add: trim_def dropWhile_eq_Nil_conv)
  then have "dropWhile isWhiteSpace s = []"
    using hd_dropWhile [of isWhiteSpace s] hd_in_set [of "dropWhile isWhiteSpace s"] by blast
  then show "\<forall>c\<in>set s. isWhiteSpace c"
    by (simp add: dropWhile_eq_Nil_conv)
next
  assume "\<forall>c\<in>set s. isWhiteSpace c"
  then have d: "dropWhile isWhiteSpace s = []"
    by simp
  show "trim s = []" unfolding trim_def d by simp
qed

lemma trim_toLowerCase_eq_Nil: "trim (toLowerCase s) = [] \<longleftrightarrow> trim s = []"
  by (simp add: trim_eq_Nil toLowerCase_def isWhiteSpace_lowerChar)

lemma trim_prefix: "\<exists>ws. dropWhile isWhiteSpace s = trim s @ ws"
proof -
  let ?ys = "dropWhile isWhiteSpace s"
  have "rev (dropWhile isWhiteSpace (rev ?ys)) @ rev (takeWhile isWhiteSpace (rev ?ys)) = ?ys"
    by (metis rev_append rev_rev_ident takeWhile_dropWhile_id)
  then have "?ys = trim s @ rev (takeWhile isWhiteSpace (rev ?ys))"
    unfolding trim_def by (rule sym)
  then show ?thesis ..
qed

lemma hd_trim: "trim s \<noteq> [] \<Longrightarrow> \<not> isWhiteSpace (hd (trim s))"
proof -
  assume ne: "trim s \<noteq> []"
  obtain ws where eq: "dropWhile isWhiteSpace s = trim s @ ws"
    using trim_prefix by blast
  with ne have "dropWhile isWhiteSpace s \<noteq> []" by simp
  then have "\<not> isWhiteSpace (hd (dropWhile isWhiteSpace s))" by (rule hd_dropWhile)
  with eq ne show ?thesis by simp
qed

lemma trim_id:
  assumes "s \<noteq> []" "\<not> isWhiteSpace (hd s)" "\<not> isWhiteSpace (last s)"
  shows "trim s = s"
proof -
  from assms have a: "dropWhile isWhiteSpace s = s"
    by (cases s) simp_all
  from assms have "dropWhile isWhiteSpace (rev s) = rev s"
    by (cases "rev s") (simp_all add: last_rev [symmetric] hd_rev)
  with a show ?thesis by (simp add: trim_def)
qed

lemma split_head_nonempty:
  "s \<noteq> [] \<Longrightarrow> hd s \<noteq> sep \<Longrightarrow> \<exists>w ws. split sep s = w # ws \<and> w \<noteq> []"
  by (cases s) (auto split: list.splits)

lemma split_no_sep: "sep \<notin> set s \<Longrightarrow> split sep s = [s]"
  by (induction s) auto

lemma split_append_sep: "sep \<notin> set a \<Longrightarrow> split sep (a @ sep # b) = a # split sep b"
  by (induction a) auto

lemma tokens_nonblank:
  assumes "trim line \<noteq> []"
  shows "\<exists>cmd args. tokens line = cmd # args \<and> cmd \<noteq> []"
proof -
  from assms have ne: "trim (toLowerCase line) \<noteq> []"
    by (simp add: trim_toLowerCase_eq_Nil)
  then have "\<not> isWhiteSpace (hd (trim (toLowerCase line)))" by (rule hd_trim)
  then have "hd (trim (toLowerCase line)) \<noteq> CHR '' ''"
    using isWhiteSpace_space by auto
  with ne show ?thesis
    unfolding tokens_def by (rule split_head_nonempty)
qed

lemma tokens_blank: "trim line = [] \<Longrightarrow> tokens line = [[]]"
proof -
  assume "trim line = []"
  then have t: "trim (toLowerCase line) = []"
    by (simp only: trim_toLowerCase_eq_Nil)
  show ?thesis unfolding tokens_def t by simp
qed


lemma word_toLowerCase: "word x \<Longrightarrow> word (toLowerCase x)"
  by (simp add: word_def toLowerCase_def list_all_iff isWhiteSpace_lowerChar)

lemma word_no_space: "word x \<Longrightarrow> CHR '' '' \<notin> set x"
  using isWhiteSpace_space by (auto simp: word_def list_all_iff)

lemma tokens_two_words:
  assumes "word w" "word x"
  shows "tokens (w @ CHR '' '' # x) = [toLowerCase w, toLowerCase x]"
proof -
  let ?w = "toLowerCase w" and ?x = "toLowerCase x"
  have w: "word ?w" and x: "word ?x" using assms by (simp_all add: word_toLowerCase)
  have low: "toLowerCase (w @ CHR '' '' # x) = ?w @ CHR '' '' # ?x"
    by (simp add: toLowerCase_def lowerChar_def)
  from w x have "trim (?w @ CHR '' '' # ?x) = ?w @ CHR '' '' # ?x"
    by (intro trim_id) (auto simp: word_def list_all_iff hd_append last_in_set)
  moreover from w x have "split (CHR '' '') (?w @ CHR '' '' # ?x) = [?w, ?x]"
    by (simp add: split_append_sep split_no_sep word_no_space)
  ultimately show ?thesis by (simp add: tokens_def low)
qed

section \<open>Facts about the interpreter and the events\<close>

lemma exec_clear:
  "tokens line = ''clear'' # args \<Longrightarrow> executeCommand now line s = s\<lparr>commands := []\<rparr>"
  by (simp add: executeCommand_def)

lemma exec_blank: "tokens line = [] # args \<Longrightarrow> executeCommand now line s = s"
  by (simp add: executeCommand_def)

lemma exec_notFound:
  assumes "tokens line = cmd # args" "cmd \<noteq> []" "cmd \<notin> set (map fst availableCommands)"
  shows "executeCommand now line s = appendEntry now line (notFound cmd) s"
  using assms by (simp add: executeCommand_def availableCommands_def)


lemma exec_cat:
  "tokens line = ''cat'' # args \<Longrightarrow>
   executeCommand now line s =
     (if (case args of [] \<Rightarrow> False | a # rest \<Rightarrow> a = ''readme.md'')
      then appendEntry now line readmeOutput s
      else appendEntry now line
             (noSuchFile (case firstArg args of None \<Rightarrow> ''filename'' | Some a \<Rightarrow> a)) s)"
  by (simp add: executeCommand_def)

lemma exec_projects:
  "tokens line = ''projects'' # args \<Longrightarrow>
   executeCommand now line s = appendEntry now line (projectsOutput (projects s)) s"
  by (simp add: executeCommand_def)

lemma exec_exit:
  "tokens line = ''exit'' # args \<Longrightarrow>
   executeCommand now line s =
     appendEntry now line exitOutput (setTimeout (CallSetTheme ''default'') 1000 s)"
  by (simp add: executeCommand_def)

lemma appendEntry_simps:
  "commands (appendEntry now line out s) =
     commands s @ [\<lparr>input = line, output' = out, timestamp = now\<rparr>]"
  "commandHistory (appendEntry now line out s) = commandHistory s @ [line]"
  "historyIndex (appendEntry now line out s) = - 1"
  "currentInput (appendEntry now line out s) = currentInput s"
  "projects (appendEntry now line out s) = projects s"
  "currentTheme (appendEntry now line out s) = currentTheme s"
  "themeCalls (appendEntry now line out s) = themeCalls s"
  "timers (appendEntry now line out s) = timers s"
  by (simp_all add: appendEntry_def)

lemma setTheme_simps:
  "commands (setTheme t s) = commands s"
  "commandHistory (setTheme t s) = commandHistory s"
  "historyIndex (setTheme t s) = historyIndex s"
  "currentInput (setTheme t s) = currentInput s"
  "projects (setTheme t s) = projects s"
  "currentTheme (setTheme t s) = t"
  "themeCalls (setTheme t s) = themeCalls s @ [t]"
  "timers (setTheme t s) = timers s"
  by (simp_all add: setTheme_def)

lemma setTimeout_simps:
  "commands (setTimeout cb ms s) = commands s"
  "commandHistory (setTimeout cb ms s) = commandHistory s"
  "historyIndex (setTimeout cb ms s) = historyIndex s"
  "currentInput (setTimeout cb ms s) = currentInput s"
  "projects (setTimeout cb ms s) = projects s"
  "currentTheme (setTimeout cb ms s) = currentTheme s"
  "themeCalls (setTimeout cb ms s) = themeCalls s"
  "timers (setTimeout cb ms s) = timers s @ [(ms, cb)]"
  by (simp_all add: setTimeout_def)

lemmas effect_simps = appendEntry_simps setTheme_simps setTimeout_simps

lemma exec_commandHistory:
  assumes "tokens line = cmd # args" "cmd \<noteq> []" "cmd \<noteq> ''clear''"
  shows "commandHistory (executeCommand now line s) = commandHistory s @ [line]"
  using assms by (simp add: executeCommand_def effect_simps split: option.splits)

lemma exec_historyIndex:
  assumes "tokens line = cmd # args" "cmd \<noteq> []" "cmd \<noteq> ''clear''"
  shows "historyIndex (executeCommand now line s) = - 1"
  using assms by (simp add: executeCommand_def effect_simps split: option.splits)


lemma exec_currentInput: "currentInput (executeCommand now line s) = currentInput s"
  by (cases "tokens line")
     (simp_all add: executeCommand_def effect_simps split: option.splits)

lemma exec_projects_unchanged: "projects (executeCommand now line s) = projects s"
  by (cases "tokens line")
     (simp_all add: executeCommand_def effect_simps split: option.splits)

lemma exec_timers:
  "timers (executeCommand now line s) =
     timers s @ (if commandName line = ''exit'' then [(1000, CallSetTheme ''default'')] else [])"
  by (cases "tokens line")
     (simp_all add: executeCommand_def commandName_def effect_simps split: option.splits)

lemma exec_cursorInRange:
  "cursorInRange s \<Longrightarrow> cursorInRange (executeCommand now line s)"
  by (cases "tokens line")
     (simp_all add: cursorInRange_def executeCommand_def effect_simps split: option.splits)




lemma commandName_tokens: "commandName line = cmd \<Longrightarrow> \<exists>args. tokens line = cmd # args"
  using tokens_not_Nil [of line] by (cases "tokens line") (simp_all add: commandName_def)

lemma commandName_nonblank: "commandName line \<noteq> [] \<Longrightarrow> trim line \<noteq> []"
  using tokens_blank [of line] by (auto simp: commandName_def)

lemma plainText_notFound:
  "plainText (notFound cmd) =
     Some (''Command '' @ [CHR 0x27] @ cmd @ CHR 0x27 # '' not found. Type 'help' for available commands.'')"
  by (simp add: notFound_def)

lemma keyDown_inv:
  assumes "cursorInRange s" "currentInput s \<noteq> None"
  shows "cursorInRange (handleKeyDown key s) \<and> currentInput (handleKeyDown key s) \<noteq> None"
  using assms by (auto simp: handleKeyDown_def cursorInRange_def Let_def at_def)

lemma submit_inv:
  assumes "cursorInRange s" "currentInput s \<noteq> None"
  shows "\<exists>s'. handleSubmit now s = Inr s' \<and> cursorInRange s' \<and> currentInput s' \<noteq> None"
proof -
  from assms(2) obtain line where l: "currentInput s = Some line" by auto
  have "cursorInRange ((executeCommand now line s)\<lparr>currentInput := Some []\<rparr>)"
    using exec_cursorInRange [OF assms(1), of now line] by (simp add: cursorInRange_def)
  with l assms show ?thesis by (simp add: handleSubmit_def)
qed

lemma fireTimer_fields:
  "commandHistory (fireTimer s) = commandHistory s"
  "historyIndex (fireTimer s) = historyIndex s"
  "currentInput (fireTimer s) = currentInput s"
  by (simp_all add: fireTimer_def setTheme_def split: list.splits callback.splits)

lemma step_inv:
  assumes "cursorInRange s" "currentInput s \<noteq> None"
  shows "\<exists>s'. step e s = Inr s' \<and> cursorInRange s' \<and> currentInput s' \<noteq> None"
proof (cases e)
  case (Change v)
  with assms show ?thesis by (simp add: cursorInRange_def)
next
  case (KeyDown key)
  with keyDown_inv [OF assms] show ?thesis by simp
next
  case (Submit now)
  with submit_inv [OF assms] show ?thesis by simp
next
  case (Fetched response)
  with assms show ?thesis
    by (simp add: fetchProjects_def cursorInRange_def split: sum.splits)
next
  case TimerFires
  with assms show ?thesis by (simp add: cursorInRange_def fireTimer_fields)
qed

lemma run_inv:
  "cursorInRange s \<Longrightarrow> currentInput s \<noteq> None \<Longrightarrow>
   \<exists>s'. run evs s = Inr s' \<and> cursorInRange s' \<and> currentInput s' \<noteq> None"
proof (induction evs arbitrary: s)
  case Nil
  then show ?case by simp
next
  case (Cons e evs)
  from step_inv [OF Cons.prems] obtain s1 where
    s1: "step e s = Inr s1" "cursorInRange s1" "currentInput s1 \<noteq> None" by blast
  from Cons.IH [OF s1(2,3)] s1(1) show ?case by simp
qed

lemma mounted_inv: "cursorInRange (mounted t) \<and> currentInput (mounted t) \<noteq> None"
  by (simp add: mounted_def cursorInRange_def)

lemma arrowDown_at_rest: "historyIndex s = - 1 \<Longrightarrow> handleKeyDown ''ArrowDown'' s = s"
  by (simp add: handleKeyDown_def)

lemma submit_recorded:
  assumes "commandName line \<noteq> []" "commandName line \<noteq> ''clear''"
  shows "\<exists>s'. handleSubmit now (s\<lparr>currentInput := Some line\<rparr>) = Inr s' \<and>
              commandHistory s' = commandHistory s @ [line] \<and> historyIndex s' = - 1 \<and>
              currentInput s' = Some []"
proof -
  obtain args where t: "tokens line = commandName line # args"
    using commandName_tokens by blast
  from assms(1) have "trim line \<noteq> []" by (rule commandName_nonblank)
  then show ?thesis
    using exec_commandHistory [OF t assms] exec_historyIndex [OF t assms]
    by (simp add: handleSubmit_def)
qed

lemma run_submissions:
  assumes "list_all (\<lambda>(line, now). commandName line \<noteq> [] \<and> commandName line \<noteq> ''clear'') subs"
  shows "\<exists>s'. run (submissions subs) s = Inr s' \<and>
              commandHistory s' = commandHistory s @ map fst subs \<and>
              (subs \<noteq> [] \<longrightarrow> historyIndex s' = - 1)"
  using assms
proof (induction subs arbitrary: s rule: rev_induct)
  case Nil
  then show ?case by simp
next
  case (snoc sub subs)
  obtain line now where sub: "sub = (line, now)" by (cases sub)
  from snoc.prems have ok: "commandName line \<noteq> []" "commandName line \<noteq> ''clear''"
    and rest: "list_all (\<lambda>(line, now). commandName line \<noteq> [] \<and> commandName line \<noteq> ''clear'') subs"
    by (simp_all add: sub)
  from snoc.IH [OF rest] obtain s1 where
    s1: "run (submissions subs) s = Inr s1" "commandHistory s1 = commandHistory s @ map fst subs"
    by blast
  from submit_recorded [OF ok, of now s1] obtain s2 where
    s2: "handleSubmit now (s1\<lparr>currentInput := Some line\<rparr>) = Inr s2"
        "commandHistory s2 = commandHistory s1 @ [line]" "historyIndex s2 = - 1"
    by blast
  have app: "run (xs @ ys) s = (case run xs s of Inl e \<Rightarrow> Inl e | Inr s' \<Rightarrow> run ys s')"
    for xs ys s by (induction xs arbitrary: s) (simp_all split: sum.splits)
  have sub_app: "submissions (subs @ [(line, now)]) = submissions subs @ [Change line, Submit now]"
    by (induction subs rule: submissions.induct) simp_all
  from s1 s2 show ?case by (simp add: sub sub_app app)
qed

lemma recalled_from:
  assumes "historyIndex s = int k - 1" "k + n \<le> length (commandHistory s)"
  shows "recalled n s =
           map (\<lambda>j. Some (commandHistory s ! (length (commandHistory s) - 1 - (k + j)))) [0..<n]"
  using assms
proof (induction n arbitrary: s k)
  case 0
  then show ?case by simp
next
  case (Suc n)
  let ?h = "commandHistory s" and ?s' = "handleKeyDown ''ArrowUp'' s"
  from Suc.prems have idx: "nat (int (length ?h) - 1 - int k) = length ?h - 1 - k"
    by arith
  from Suc.prems have up:
    "?s' = s\<lparr>historyIndex := int k,
              currentInput := Some (?h ! (length ?h - 1 - k))\<rparr>"
    by (simp add: handleKeyDown_def Let_def at_def idx)
  have "recalled n ?s' =
          map (\<lambda>j. Some (commandHistory ?s' ! (length (commandHistory ?s') - 1 - (Suc k + j)))) [0..<n]"
    using Suc.prems by (intro Suc.IH) (simp_all add: up)
  then have "recalled n ?s' = map (\<lambda>j. Some (?h ! (length ?h - 1 - (k + Suc j)))) [0..<n]"
    by (simp add: up)
  then show ?case
    by (simp add: up upt_rec [of 0 "Suc n"] map_Suc_upt [symmetric] del: upt_Suc)
qed

lemma rev_by_index: "map (\<lambda>j. xs ! (length xs - 1 - j)) [0..<length xs] = rev xs"
  by (rule nth_equalityI) (simp_all add: rev_nth)

lemma recalled_all:
  assumes "historyIndex s = - 1"
  shows "recalled (length (commandHistory s)) s = map Some (rev (commandHistory s))"
proof -
  have "recalled (length (commandHistory s)) s =
          map (\<lambda>j. Some (commandHistory s ! (length (commandHistory s) - 1 - (0 + j))))
            [0..<length (commandHistory s)]"
    using assms by (intro recalled_from) simp_all
  also have "\<dots> = map Some (map (\<lambda>j. commandHistory s ! (length (commandHistory s) - 1 - j))
            [0..<length (commandHistory s)])"
    by simp
  finally show ?thesis by (simp only: rev_by_index)
qed

lemma plainText_noSuchFile:
  "plainText (noSuchFile name) = Some (''cat: '' @ name @ '': No such file or directory'')"
  by (simp add: noSuchFile_def)

lemma readme_heading:
  "byClass ''text-green-400 font-bold'' readmeOutput = [readmeHeading]"
  "plainText readmeHeading = Some ''# Site-Portifolio''"
  by (simp_all add: readmeOutput_def readmeHeading_def)

lemma tokens_word_argument:
  assumes "word w" "word x" "tokens (w @ CHR '' '' # x) = cmd # args"
  shows "args = [toLowerCase x]"
  using tokens_two_words [OF assms(1,2)] assms(3) by simp

lemma word_cat: "word ''cat''"
  by (simp add: word_def isWhiteSpace_def)


lemma byClass_title_card:
  "byClass ''text-cyan-400 font-semibold'' (projectCard p) =
     [El ''div'' ''text-cyan-400 font-semibold'' [Txt (title p)]]"
  by (auto simp: projectCard_def split: option.splits)

lemma byClass_placeholder_card: "byClass ''text-gray-400'' (projectCard p) = []"
  by (auto simp: projectCard_def split: option.splits)

lemma listedTitles_cards:
  "map plainText (concat (map (byClass ''text-cyan-400 font-semibold'') (map projectCard ps))) =
     map (\<lambda>p. Some (title p)) ps"
  by (induction ps) (simp_all add: byClass_title_card)

lemma no_placeholder_cards:
  "concat (map (byClass ''text-gray-400'') (map projectCard ps)) = []"
  by (induction ps) (simp_all add: byClass_placeholder_card)

lemma listedTitles_projectsOutput:
  "listedTitles (projectsOutput ps) = map (\<lambda>p. Some (title p)) ps"
proof (cases ps)
  case Nil
  then show ?thesis
    by (simp add: listedTitles_def projectsOutput_def loadingPlaceholder_def)
next
  case (Cons p rest)
  have "listedTitles (projectsOutput ps) =
          map plainText (concat (map (byClass ''text-cyan-400 font-semibold'') (map projectCard ps)))"
    by (simp add: listedTitles_def projectsOutput_def Cons)
  then show ?thesis by (simp only: listedTitles_cards)
qed

lemma placeholderShown_projectsOutput: "placeholderShown (projectsOutput ps) \<longleftrightarrow> ps = []"
proof (cases ps)
  case Nil
  then show ?thesis
    by (simp add: placeholderShown_def projectsOutput_def loadingPlaceholder_def)
next
  case (Cons p rest)
  have "byClass ''text-gray-400'' (projectsOutput ps) =
          concat (map (byClass ''text-gray-400'') (map projectCard ps))"
    by (simp add: projectsOutput_def Cons)
  then have "byClass ''text-gray-400'' (projectsOutput ps) = []"
    by (simp only: no_placeholder_cards)
  with Cons show ?thesis by (simp add: placeholderShown_def)
qed

lemma fireTimer_head:
  "timers s = (ms, CallSetTheme theme) # rest \<Longrightarrow>
   fireTimer s = setTheme theme (s\<lparr>timers := rest\<rparr>)"
  by (simp add: fireTimer_def)

section \<open>Properties\<close>

subsection \<open>The clear command\<close>

text \<open>
  C1, as amended. Whatever the session log held, a line whose command name is
  \<^verbatim>\<open>clear\<close> leaves it empty. The \<^verbatim>\<open>clear\<close> case returns before the lines that
  record a command, so the input history and the recall cursor stay as they were:
  \<^verbatim>\<open>clear\<close> itself is not added to the input history. Submitting the line through
  the form does the same and empties the buffer.
\<close>

theorem clear_empties_log:
  assumes "commandName line = ''clear''"
  shows "commands (executeCommand now line s) = [] \<and>
         commandHistory (executeCommand now line s) = commandHistory s \<and>
         historyIndex (executeCommand now line s) = historyIndex s \<and>
         handleSubmit now (s\<lparr>currentInput := Some line\<rparr>) =
           Inr (s\<lparr>commands := [], currentInput := Some []\<rparr>)"
proof -
  from assms obtain args where t: "tokens line = ''clear'' # args"
    using commandName_tokens by blast
  then have e: "executeCommand now line s = s\<lparr>commands := []\<rparr>" for s
    by (rule exec_clear)
  from assms have "trim line \<noteq> []"
    by (intro commandName_nonblank) simp
  with e show ?thesis by (simp add: handleSubmit_def)
qed

text \<open>After \<^verbatim>\<open>help\<close> and then \<^verbatim>\<open>clear\<close>, the log is empty and the history holds \<^verbatim>\<open>help\<close> only.\<close>

theorem clear_empties_log_witness:
  "commandName ''clear'' = ''clear'' \<and>
   commands (executeCommand 9 ''clear'' (executeCommand 8 ''help'' (mounted 0))) = [] \<and>
   commandHistory (executeCommand 9 ''clear'' (executeCommand 8 ''help'' (mounted 0))) = [''help'']"
proof -
  have h: "commandName ''clear'' = ''clear''" by code_simp
  have "commandHistory (executeCommand 8 ''help'' (mounted 0)) = [''help'']" by code_simp
  with clear_empties_log [OF h, of 9 "executeCommand 8 ''help'' (mounted 0)"] h
  show ?thesis by simp
qed

text \<open>
  C1 as first stated has the input history contain \<^verbatim>\<open>clear\<close> afterwards. On a fresh
  terminal it does not.
\<close>

theorem clear_not_in_history_counterexample:
  "length (commands (executeCommand 1 ''clear'' (mounted 0))) = 0 \<and>
   ''clear'' \<notin> set (commandHistory (executeCommand 1 ''clear'' (mounted 0)))"
  by code_simp

subsection \<open>Unknown commands\<close>

text \<open>
  C2. The leading token of a line is its command name, as the interpreter reads it.
  When that name is not empty and is none of the seventeen names of
  \<^const>\<open>availableCommands\<close>, the session log grows by exactly one entry, whose output
  reads \<^verbatim>\<open>Command '<name>' not found. Type 'help' for available commands.\<close> No call
  of \<^verbatim>\<open>setTheme\<close> is made and no timer set, and the submission returns normally with
  the updated state: nothing is thrown.
\<close>

theorem unknown_command_not_found:
  assumes "commandName line = cmd" "cmd \<noteq> []" "cmd \<notin> set (map fst availableCommands)"
  shows "commands (executeCommand now line s) =
           commands s @ [\<lparr>input = line, output' = notFound cmd, timestamp = now\<rparr>] \<and>
         plainText (notFound cmd) =
           Some (''Command '' @ [CHR 0x27] @ cmd @
                 CHR 0x27 # '' not found. Type 'help' for available commands.'') \<and>
         themeCalls (executeCommand now line s) = themeCalls s \<and>
         timers (executeCommand now line s) = timers s \<and>
         handleSubmit now (s\<lparr>currentInput := Some line\<rparr>) =
           Inr ((appendEntry now line (notFound cmd) s)\<lparr>currentInput := Some []\<rparr>)"
proof -
  from assms(1) obtain args where t: "tokens line = cmd # args"
    using commandName_tokens by blast
  from t assms(2,3) have e: "executeCommand now line s = appendEntry now line (notFound cmd) s"
    for s by (rule exec_notFound)
  from assms(1,2) have "trim line \<noteq> []"
    by (intro commandName_nonblank) simp
  with e show ?thesis
    by (simp add: handleSubmit_def effect_simps plainText_notFound)
qed

text \<open>The line \<^verbatim>\<open>frobnicate now\<close> on a fresh terminal.\<close>

theorem unknown_command_not_found_witness:
  "commandName ''frobnicate now'' = ''frobnicate'' \<and>
   ''frobnicate'' \<noteq> [] \<and>
   ''frobnicate'' \<notin> set (map fst availableCommands) \<and>
   length (commands (executeCommand 2 ''frobnicate now'' (mounted 0))) = 2 \<and>
   plainText (output' (last (commands (executeCommand 2 ''frobnicate now'' (mounted 0))))) =
     Some (''Command '' @ [CHR 0x27] @ ''frobnicate'' @
           CHR 0x27 # '' not found. Type 'help' for available commands.'')"
proof -
  have a: "commandName ''frobnicate now'' = ''frobnicate''" by code_simp
  have b: "''frobnicate'' \<noteq> []" by simp
  have c: "''frobnicate'' \<notin> set (map fst availableCommands)"
    by (simp add: availableCommands_def)
  from unknown_command_not_found [OF a b c, of 2 "mounted 0"] a b c
  show ?thesis by (simp add: mounted_def)
qed

subsection \<open>The theme command\<close>



subsection \<open>The recall cursor\<close>

text \<open>
  C4. Start from the mounted terminal and let any events happen in any order: typing,
  keys (the two arrows among them), submissions, the answer to the request for the
  projects, a timer running out. No event throws, and in the state reached the recall
  cursor lies between \<open>-1\<close> and the length of the input history minus one. When the
  cursor is \<open>-1\<close>, the down arrow changes nothing at all, cursor and buffer included.
\<close>

theorem recall_cursor_in_range:
  "\<exists>s. run evs (mounted t) = Inr s \<and>
        - 1 \<le> historyIndex s \<and> historyIndex s \<le> int (length (commandHistory s)) - 1 \<and>
        (historyIndex s = - 1 \<longrightarrow> handleKeyDown ''ArrowDown'' s = s)"
proof -
  from run_inv [of "mounted t" evs] mounted_inv [of t] obtain s where
    "run evs (mounted t) = Inr s" "cursorInRange s" by blast
  then show ?thesis by (auto simp: cursorInRange_def arrowDown_at_rest)
qed

text \<open>Submit \<^verbatim>\<open>ls\<close>, go up, come back down: the cursor is \<open>-1\<close> again and a further down arrow is idle.\<close>

theorem recall_cursor_in_range_witness:
  "\<exists>s. run [Change ''ls'', Submit 1, KeyDown ''ArrowUp'', KeyDown ''ArrowDown'']
          (mounted 0) = Inr s \<and>
        historyIndex s = - 1 \<and> commandHistory s = [''ls''] \<and>
        handleKeyDown ''ArrowDown'' s = s"
proof -
  let ?evs = "[Change ''ls'', Submit 1, KeyDown ''ArrowUp'', KeyDown ''ArrowDown'']"
  from recall_cursor_in_range [of ?evs 0] obtain s where
    r: "run ?evs (mounted 0) = Inr s" and
    n: "historyIndex s = - 1 \<longrightarrow> handleKeyDown ''ArrowDown'' s = s" by blast
  have "map_sum id historyIndex (run ?evs (mounted 0)) = Inr (- 1)" by code_simp
  with r have i: "historyIndex s = - 1" by simp
  have "map_sum id commandHistory (run ?evs (mounted 0)) = Inr [''ls'']" by code_simp
  with r have h: "commandHistory s = [''ls'']" by simp
  from r i h n show ?thesis by blast
qed

subsection \<open>Submitting and recalling\<close>

text \<open>
  C5, as amended. Type and submit \<open>N\<close> lines, each with a command name that is neither
  empty (the line is not blank) nor \<^verbatim>\<open>clear\<close>. No step throws, the input history is
  then exactly those \<open>N\<close> lines in the order of submission, and \<open>N\<close> presses of the up
  arrow put them into the buffer one after the other, the last submitted first. The
  lines need not differ from each other.
\<close>

theorem history_round_trip:
  assumes "list_all (\<lambda>(line, now). commandName line \<noteq> [] \<and> commandName line \<noteq> ''clear'') subs"
  shows "\<exists>s. run (submissions subs) (mounted t) = Inr s \<and>
              commandHistory s = map fst subs \<and>
              recalled (length subs) s = map Some (rev (map fst subs))"
proof -
  from run_submissions [OF assms, of "mounted t"] obtain s where
    s: "run (submissions subs) (mounted t) = Inr s"
       "commandHistory s = commandHistory (mounted t) @ map fst subs"
       "subs \<noteq> [] \<longrightarrow> historyIndex s = - 1"
    by blast
  have "historyIndex s = - 1"
  proof (cases subs)
    case Nil
    with s(1) show ?thesis by (auto simp: mounted_def)
  next
    case Cons
    with s(3) show ?thesis by simp
  qed
  from recalled_all [OF this] s(1,2) show ?thesis
    by (simp add: mounted_def)
qed

text \<open>Three lines, one in capitals and one unknown to the interpreter.\<close>

theorem history_round_trip_witness:
  "list_all (\<lambda>(line, now). commandName line \<noteq> [] \<and> commandName line \<noteq> ''clear'')
     [(''help'', 1 :: nat), (''Cat README.md'', 2), (''xyzzy'', 3)] \<and>
   (\<exists>s. run (submissions [(''help'', 1), (''Cat README.md'', 2), (''xyzzy'', 3)]) (mounted 0) = Inr s \<and>
        commandHistory s = [''help'', ''Cat README.md'', ''xyzzy''] \<and>
        recalled 3 s = [Some ''xyzzy'', Some ''Cat README.md'', Some ''help''])"
proof -
  let ?subs = "[(''help'', 1), (''Cat README.md'', 2), (''xyzzy'', 3 :: nat)]"
  have h: "list_all (\<lambda>(line, now). commandName line \<noteq> [] \<and> commandName line \<noteq> ''clear'') ?subs"
    by code_simp
  have len: "length ?subs = 3" by simp
  have m: "map fst ?subs = [''help'', ''Cat README.md'', ''xyzzy'']" by simp
  have r: "map Some (rev [''help'', ''Cat README.md'', ''xyzzy'']) =
             [Some ''xyzzy'', Some ''Cat README.md'', Some ''help'']"
    by simp
  from history_round_trip [OF h, of 0] obtain s where
    "run (submissions ?subs) (mounted 0) = Inr s"
    "commandHistory s = map fst ?subs"
    "recalled (length ?subs) s = map Some (rev (map fst ?subs))"
    by blast
  then have "run (submissions ?subs) (mounted 0) = Inr s \<and>
             commandHistory s = [''help'', ''Cat README.md'', ''xyzzy''] \<and>
             recalled 3 s = [Some ''xyzzy'', Some ''Cat README.md'', Some ''help'']"
    unfolding len m r by blast
  with h show ?thesis by blast
qed

text \<open>
  C5 as first stated asks of the lines only that they are distinct and not empty.
  The one line \<^verbatim>\<open>clear\<close> is both; once submitted, the input history is empty and the
  up arrow leaves the empty buffer as it is. So is a line of one space, which the
  form does not even pass to the interpreter.
\<close>

theorem history_round_trip_counterexample:
  "run (submissions [(''clear'', 1)]) (mounted 0) = Inr ((mounted 0)\<lparr>commands := []\<rparr>) \<and>
   commandHistory ((mounted 0)\<lparr>commands := []\<rparr>) = [] \<and>
   recalled 1 ((mounted 0)\<lparr>commands := []\<rparr>) = [Some []] \<and>
   run (submissions [('' '', 1)]) (mounted 0) = Inr ((mounted 0)\<lparr>currentInput := Some '' ''\<rparr>) \<and>
   commandHistory ((mounted 0)\<lparr>currentInput := Some '' ''\<rparr>) = []"
  by code_simp

subsection \<open>The cat command\<close>

text \<open>
  C6, as amended. Take any line that the interpreter reads as the command \<^verbatim>\<open>cat\<close>;
  its argument is \<^verbatim>\<open>args[0]\<close>, a piece of the lower-cased line, so for a line typed as
  \<^verbatim>\<open>cat\<close>, one space and one word, it is that word in lower case. The only file name
  recognised is \<^verbatim>\<open>readme.md\<close>, compared with that lower-cased argument, and the output
  then has the heading \<^verbatim>\<open># Site-Portifolio\<close>. For any other argument the output reads
  exactly \<^verbatim>\<open>cat: <argument in lower case>: No such file or directory\<close>, and with no
  argument \<^verbatim>\<open>filename\<close> stands in its place.
\<close>

theorem cat_command:
  assumes "tokens line = ''cat'' # args"
  shows "(firstArg args = Some ''readme.md'' \<longrightarrow>
            commands (executeCommand now line s) =
              commands s @ [\<lparr>input = line, output' = readmeOutput, timestamp = now\<rparr>]) \<and>
         byClass ''text-green-400 font-bold'' readmeOutput = [readmeHeading] \<and>
         plainText readmeHeading = Some ''# Site-Portifolio'' \<and>
         (\<forall>a. firstArg args = Some a \<and> a \<noteq> ''readme.md'' \<longrightarrow>
            commands (executeCommand now line s) =
              commands s @ [\<lparr>input = line, output' = noSuchFile a, timestamp = now\<rparr>] \<and>
            plainText (noSuchFile a) = Some (''cat: '' @ a @ '': No such file or directory'')) \<and>
         (firstArg args = None \<longrightarrow>
            commands (executeCommand now line s) =
              commands s @ [\<lparr>input = line, output' = noSuchFile ''filename'', timestamp = now\<rparr>] \<and>
            plainText (noSuchFile ''filename'') =
              Some ''cat: filename: No such file or directory'') \<and>
         (\<forall>x. word x \<and> line = ''cat '' @ x \<longrightarrow> args = [toLowerCase x])"
proof -
  have "\<forall>x. word x \<and> line = ''cat '' @ x \<longrightarrow> args = [toLowerCase x]"
    using assms tokens_word_argument [OF word_cat] by auto
  moreover have "firstArg args = Some ''readme.md'' \<longrightarrow>
      commands (executeCommand now line s) =
        commands s @ [\<lparr>input = line, output' = readmeOutput, timestamp = now\<rparr>]"
    by (cases args) (simp_all add: exec_cat [OF assms] firstArg_def effect_simps split: if_splits)
  moreover have "\<forall>a. firstArg args = Some a \<and> a \<noteq> ''readme.md'' \<longrightarrow>
      commands (executeCommand now line s) =
        commands s @ [\<lparr>input = line, output' = noSuchFile a, timestamp = now\<rparr>]"
    by (cases args) (simp_all add: exec_cat [OF assms] firstArg_def effect_simps split: if_splits)
  moreover have "firstArg args = None \<longrightarrow>
      commands (executeCommand now line s) =
        commands s @ [\<lparr>input = line, output' = noSuchFile ''filename'', timestamp = now\<rparr>]"
    by (cases args) (simp_all add: exec_cat [OF assms] firstArg_def effect_simps split: if_splits)
  ultimately show ?thesis
    by (simp only: plainText_noSuchFile readme_heading) simp
qed

text \<open>\<^verbatim>\<open>cat Notes.TXT\<close> on a fresh terminal: the welcome entry, then the error in lower case.\<close>

theorem cat_command_witness:
  "tokens ''cat Notes.TXT'' = [''cat'', ''notes.txt''] \<and>
   map (\<lambda>c. plainText (output' c)) (commands (executeCommand 4 ''cat Notes.TXT'' (mounted 0))) =
     [None, Some ''cat: notes.txt: No such file or directory'']"
proof -
  have t: "tokens ''cat Notes.TXT'' = [''cat'', ''notes.txt'']" by code_simp
  from cat_command [OF t, of 4 "mounted 0"] t show ?thesis
    by (simp add: firstArg_def mounted_def)
qed

text \<open>
  C6 as first stated has the error repeat the argument as it was typed. For
  \<^verbatim>\<open>cat Notes.TXT\<close> the output is not \<^verbatim>\<open>cat: Notes.TXT: No such file or directory\<close>.
\<close>

theorem cat_echoes_typed_argument_counterexample:
  "plainText (output' (last (commands (executeCommand 4 ''cat Notes.TXT'' (mounted 0))))) =
     Some ''cat: notes.txt: No such file or directory'' \<and>
   plainText (output' (last (commands (executeCommand 4 ''cat Notes.TXT'' (mounted 0))))) \<noteq>
     Some ''cat: Notes.TXT: No such file or directory''"
  by code_simp

subsection \<open>The projects command\<close>

text \<open>
  C7, as amended. A line read as the command \<^verbatim>\<open>projects\<close> adds one entry, rendered
  from the cached list. While the list is empty (the request has not been answered,
  or was answered with no project) the entry shows
  \<^verbatim>\<open>Loading projects from database...\<close> and no title. When it is not empty the entry
  shows no placeholder and the titles of exactly the cached projects, in order. An
  answered request stores the projects it brought; a failed request stores the two
  built-in projects \<^verbatim>\<open>Portfolio Terminal\<close> and \<^verbatim>\<open>Full Stack Dashboard\<close>, so after a
  failure the list is not empty.
\<close>

theorem projects_listing:
  assumes "tokens line = ''projects'' # args"
  shows "commands (executeCommand now line s) =
           commands s @ [\<lparr>input = line, output' = projectsOutput (projects s), timestamp = now\<rparr>] \<and>
         (projects s = [] \<longrightarrow>
            placeholderShown (projectsOutput (projects s)) \<and>
            listedTitles (projectsOutput (projects s)) = []) \<and>
         plainText loadingPlaceholder = Some ''Loading projects from database...'' \<and>
         (projects s \<noteq> [] \<longrightarrow>
            \<not> placeholderShown (projectsOutput (projects s)) \<and>
            listedTitles (projectsOutput (projects s)) = map (\<lambda>p. Some (title p)) (projects s)) \<and>
         projects (fetchProjects (Inr data) s) = data \<and>
         projects (fetchProjects (Inl stamp) s) = mockProjects stamp \<and>
         map title (mockProjects stamp) = [''Portfolio Terminal'', ''Full Stack Dashboard'']"
  by (simp add: exec_projects [OF assms] effect_simps listedTitles_projectsOutput
        placeholderShown_projectsOutput fetchProjects_def loadingPlaceholder_def mockProjects_def)

text \<open>Before the answer the placeholder shows; after an answer with two projects, their titles.\<close>

theorem projects_listing_witness:
  "tokens ''projects'' = [''projects''] \<and>
   projects (mounted 0) = [] \<and>
   placeholderShown (projectsOutput (projects (mounted 0))) \<and>
   projects (fetchProjects (Inr (mockProjects ''t'')) (mounted 0)) \<noteq> [] \<and>
   listedTitles (projectsOutput (projects (fetchProjects (Inr (mockProjects ''t'')) (mounted 0)))) =
     [Some ''Portfolio Terminal'', Some ''Full Stack Dashboard'']"
proof -
  have t: "tokens ''projects'' = [''projects'']" by code_simp
  have e: "projects (mounted 0) = []" by (simp add: mounted_def)
  have n: "projects (fetchProjects (Inr (mockProjects ''t'')) (mounted 0)) \<noteq> []"
    by (simp add: fetchProjects_def mockProjects_def)
  from projects_listing [OF t, of 1 "mounted 0"] e
  have "placeholderShown (projectsOutput (projects (mounted 0)))" by simp
  moreover from projects_listing [OF t, of 1 "fetchProjects (Inr (mockProjects ''t'')) (mounted 0)"] n
  have "listedTitles (projectsOutput (projects (fetchProjects (Inr (mockProjects ''t'')) (mounted 0)))) =
          [Some ''Portfolio Terminal'', Some ''Full Stack Dashboard'']"
    by (simp add: fetchProjects_def mockProjects_def)
  ultimately show ?thesis using t e n by simp
qed

text \<open>
  C7 as first stated has a failed request leave the list empty and \<^verbatim>\<open>projects\<close> show
  the placeholder. After a failed request the list is not empty, and \<^verbatim>\<open>projects\<close>
  shows the two built-in titles and no placeholder.
\<close>

theorem failed_fetch_counterexample:
  "projects (fetchProjects (Inl ''2025-01-01T00:00:00.000Z'') (mounted 0)) \<noteq> [] \<and>
   \<not> placeholderShown
       (output' (last (commands (executeCommand 1 ''projects''
          (fetchProjects (Inl ''2025-01-01T00:00:00.000Z'') (mounted 0)))))) \<and>
   listedTitles
       (output' (last (commands (executeCommand 1 ''projects''
          (fetchProjects (Inl ''2025-01-01T00:00:00.000Z'') (mounted 0)))))) =
     [Some ''Portfolio Terminal'', Some ''Full Stack Dashboard'']"
  by code_simp

subsection \<open>The exit command\<close>

text \<open>
  C8, as amended. Executing a line sets a timer exactly when its command name is
  \<^verbatim>\<open>exit\<close>, and then one timer: \<^verbatim>\<open>setTheme('default')\<close> after 1000 milliseconds. The
  \<^verbatim>\<open>exit\<close> entry is the transition message, \<^verbatim>\<open>Exiting terminal mode...\<close> with
  \<^verbatim>\<open>Switching to default portfolio view\<close> below it, and \<^verbatim>\<open>setTheme\<close> is not called at
  once.
  The timer is not tied to the component: a change of theme, which takes the terminal
  off the page unless the theme is \<^verbatim>\<open>cmd\<close>, leaves it pending, and when it runs out
  it calls \<^verbatim>\<open>setTheme('default')\<close> all the same.
\<close>

theorem exit_schedules_theme_switch:
  "timers (executeCommand now line s) =
     timers s @ (if commandName line = ''exit'' then [(1000, CallSetTheme ''default'')] else []) \<and>
   (commandName line = ''exit'' \<longrightarrow>
      commands (executeCommand now line s) =
        commands s @ [\<lparr>input = line, output' = exitOutput, timestamp = now\<rparr>] \<and>
      exitOutput =
        El ''div'' ''text-yellow-400''
          [Txt ''Exiting terminal mode...'',
           El ''div'' ''text-gray-300 mt-1'' [Txt ''Switching to default portfolio view'']] \<and>
      plainText exitOutput =
        Some ''Exiting terminal mode...Switching to default portfolio view'' \<and>
      themeCalls (executeCommand now line s) = themeCalls s \<and>
      timers (setTheme theme (executeCommand now line s)) =
        timers s @ [(1000, CallSetTheme ''default'')] \<and>
      (timers s = [] \<longrightarrow>
         themeCalls (fireTimer (setTheme theme (executeCommand now line s))) =
           themeCalls s @ [theme, ''default''] \<and>
         currentTheme (fireTimer (setTheme theme (executeCommand now line s))) = ''default''))"
proof -
  have a: "timers (executeCommand now line s) =
     timers s @ (if commandName line = ''exit'' then [(1000, CallSetTheme ''default'')] else [])"
    by (rule exec_timers)
  have b: "commands (executeCommand now line s) =
        commands s @ [\<lparr>input = line, output' = exitOutput, timestamp = now\<rparr>] \<and>
      exitOutput =
        El ''div'' ''text-yellow-400''
          [Txt ''Exiting terminal mode...'',
           El ''div'' ''text-gray-300 mt-1'' [Txt ''Switching to default portfolio view'']] \<and>
      plainText exitOutput =
        Some ''Exiting terminal mode...Switching to default portfolio view'' \<and>
      themeCalls (executeCommand now line s) = themeCalls s \<and>
      timers (setTheme theme (executeCommand now line s)) =
        timers s @ [(1000, CallSetTheme ''default'')] \<and>
      (timers s = [] \<longrightarrow>
         themeCalls (fireTimer (setTheme theme (executeCommand now line s))) =
           themeCalls s @ [theme, ''default''] \<and>
         currentTheme (fireTimer (setTheme theme (executeCommand now line s))) = ''default'')"
    if x: "commandName line = ''exit''"
  proof -
    from x obtain args where t: "tokens line = ''exit'' # args"
      using commandName_tokens by blast
    have "timers s = [] \<Longrightarrow>
          fireTimer (setTheme theme (executeCommand now line s)) =
            setTheme ''default'' ((setTheme theme (executeCommand now line s))\<lparr>timers := []\<rparr>)"
      by (rule fireTimer_head) (simp add: exec_exit [OF t] effect_simps)
    moreover have "plainText exitOutput =
        Some ''Exiting terminal mode...Switching to default portfolio view''"
      by (simp add: exitOutput_def)
    moreover have "exitOutput =
        El ''div'' ''text-yellow-400''
          [Txt ''Exiting terminal mode...'',
           El ''div'' ''text-gray-300 mt-1'' [Txt ''Switching to default portfolio view'']]"
      by (simp add: exitOutput_def)
    ultimately show ?thesis
      by (simp add: exec_exit [OF t] effect_simps)
  qed
  from a b show ?thesis by blast
qed

text \<open>\<^verbatim>\<open>exit\<close> on a fresh terminal, then a switch to \<^verbatim>\<open>magic\<close>, then the timer.\<close>

theorem exit_schedules_theme_switch_witness:
  "commandName ''exit'' = ''exit'' \<and> timers (mounted 0) = [] \<and>
   timers (executeCommand 1 ''exit'' (mounted 0)) = [(1000, CallSetTheme ''default'')] \<and>
   map (\<lambda>c. plainText (output' c)) (commands (executeCommand 1 ''exit'' (mounted 0))) =
     [None, Some ''Exiting terminal mode...Switching to default portfolio view''] \<and>
   themeCalls (executeCommand 1 ''exit'' (mounted 0)) = [] \<and>
   themeCalls (fireTimer (setTheme ''magic'' (executeCommand 1 ''exit'' (mounted 0)))) =
     [''magic'', ''default'']"
proof -
  have c: "commandName ''exit'' = ''exit''" by code_simp
  have e: "timers (mounted 0) = []" "themeCalls (mounted 0) = []" by (simp_all add: mounted_def)
  have w: "commands (mounted 0) =
             [\<lparr>input = [], output' = Markup ''welcome'', timestamp = 0\<rparr>]"
    by (simp add: mounted_def)
  from exit_schedules_theme_switch [of 1 "''exit''" "mounted 0" "''magic''"] c e w
  show ?thesis by simp
qed

text \<open>
  C8 as first stated has the callback cancelled when the component is taken down
  before the delay is over. Submit \<^verbatim>\<open>exit\<close>, then \<^verbatim>\<open>theme magic\<close> before the second is
  over: the terminal is no longer rendered, the timer is still pending, and when it
  runs out \<^verbatim>\<open>setTheme('default')\<close> is called.
\<close>

theorem exit_timer_not_cancelled_counterexample:
  "\<not> terminalRendered (executeCommand 2 ''theme magic'' (executeCommand 1 ''exit'' (mounted 0))) \<and>
   timers (executeCommand 2 ''theme magic'' (executeCommand 1 ''exit'' (mounted 0))) =
     [(1000, CallSetTheme ''default'')] \<and>
   themeCalls (fireTimer (executeCommand 2 ''theme magic'' (executeCommand 1 ''exit'' (mounted 0)))) =
     [''magic'', ''default'']"
  by code_simp

subsection \<open>Blank lines\<close>

text \<open>
  C9. A line made of white space only (the empty line included) changes nothing:
  \<^verbatim>\<open>executeCommand\<close> returns the state it was given, so neither the session log nor
  the input history gains an entry, and \<^verbatim>\<open>handleSubmit\<close> does not even call it.
\<close>

theorem blank_line_is_ignored:
  assumes "list_all isWhiteSpace line"
  shows "executeCommand now line s = s \<and>
         handleSubmit now (s\<lparr>currentInput := Some line\<rparr>) = Inr (s\<lparr>currentInput := Some line\<rparr>)"
proof -
  from assms have t: "trim line = []"
    by (simp add: trim_eq_Nil list_all_iff)
  then have "tokens line = [[]]" by (rule tokens_blank)
  then have "executeCommand now line s = s" by (rule exec_blank)
  moreover from t have
    "handleSubmit now (s\<lparr>currentInput := Some line\<rparr>) = Inr (s\<lparr>currentInput := Some line\<rparr>)"
    by (simp add: handleSubmit_def)
  ultimately show ?thesis by simp
qed

text \<open>A space, a tab and a space.\<close>

theorem blank_line_is_ignored_witness:
  "list_all isWhiteSpace [CHR '' '', CHR 0x09, CHR '' ''] \<and>
   executeCommand 7 [CHR '' '', CHR 0x09, CHR '' ''] (mounted 0) = mounted 0 \<and>
   commands (executeCommand 7 [CHR '' '', CHR 0x09, CHR '' ''] (mounted 0)) = commands (mounted 0) \<and>
   commandHistory (executeCommand 7 [CHR '' '', CHR 0x09, CHR '' ''] (mounted 0)) = []"
proof -
  have h: "list_all isWhiteSpace [CHR '' '', CHR 0x09, CHR '' '']"
    by (simp add: isWhiteSpace_def)
  from blank_line_is_ignored [OF h, of 7 "mounted 0"] h show ?thesis
    by (simp add: mounted_def)
qed

subsection \<open>Letter case\<close>



end
